theory Spec2Isabelle
  imports Main
begin

section \<open>The fasthttp request context, as far as authz.go touches it\<close>

text \<open>
  authz.go reads three things from a \<^verbatim>\<open>*fasthttp.RequestCtx\<close> (a request header, the
  path, the method) and writes three (status code, content type, body). The context is
  a record of exactly these parts. fasthttp is a library outside the repository, so its
  accessors are modelled by what they return and store:
  \<^item> \<open>Header\<close> holds the request's header lines in the order and spelling in which
    fasthttp stores them; \<open>Peek\<close> yields the value of the first line with the key, and
    the empty string (Go's \<^verbatim>\<open>string(nil)\<close>) when there is none;
  \<^item> \<open>reqPath\<close> and \<open>reqMethod\<close> are the byte strings that \<^verbatim>\<open>ctx.Path()\<close> and
    \<^verbatim>\<open>ctx.Method()\<close> hand out; how the transport obtained them from the wire is not
    part of this development;
  \<^item> \<^verbatim>\<open>SetStatusCode\<close> and \<^verbatim>\<open>SetContentType\<close> overwrite, \<^verbatim>\<open>WriteString\<close> appends
    to the body, and \<^verbatim>\<open>StatusCode()\<close> reads an unset code (0) as 200.
\<close>

record Request =
  Header :: "(string \<times> string) list"
  reqPath :: string
  reqMethod :: string

record Response =
  statusCode :: int
  contentType :: string
  respBody :: string

record RequestCtx =
  request :: Request
  response :: Response

definition StatusOK :: int where
  "StatusOK = 200"

definition StatusForbidden :: int where
  "StatusForbidden = 403"

definition StatusInternalServerError :: int where
  "StatusInternalServerError = 500"

definition Peek :: "Request \<Rightarrow> string \<Rightarrow> string" where
  "Peek r key = (case map_of (Header r) key of None \<Rightarrow> [] | Some v \<Rightarrow> v)"

definition Path :: "RequestCtx \<Rightarrow> string" where
  "Path ctx = reqPath (request ctx)"

definition Method :: "RequestCtx \<Rightarrow> string" where
  "Method ctx = reqMethod (request ctx)"

definition SetStatusCode :: "RequestCtx \<Rightarrow> int \<Rightarrow> RequestCtx" where
  "SetStatusCode ctx code = ctx\<lparr>response := (response ctx)\<lparr>statusCode := code\<rparr>\<rparr>"

definition SetContentType :: "RequestCtx \<Rightarrow> string \<Rightarrow> RequestCtx" where
  "SetContentType ctx ct = ctx\<lparr>response := (response ctx)\<lparr>contentType := ct\<rparr>\<rparr>"

definition WriteString :: "RequestCtx \<Rightarrow> string \<Rightarrow> RequestCtx" where
  "WriteString ctx s = ctx\<lparr>response := (response ctx)\<lparr>respBody := respBody (response ctx) @ s\<rparr>\<rparr>"

definition StatusCode :: "Response \<Rightarrow> int" where
  "StatusCode r = (if statusCode r = 0 then StatusOK else statusCode r)"

definition Body :: "Response \<Rightarrow> string" where
  "Body r = respBody r"

section \<open>The types of authz.go\<close>

text \<open>
  A getter has Go type \<^verbatim>\<open>func(ctx *fasthttp.RequestCtx) string\<close>: it reads the context
  and returns a string. A \<^verbatim>\<open>fasthttp.RequestHandler\<close> returns nothing and acts by its
  effects, so it is a function on the state it can reach: the context, paired with a
  value of type \<open>'w\<close> for whatever else the handler's closure captures (the tests'
  \<^verbatim>\<open>allowed\<close> flag, for one).

  The slots hold total functions. A nil function value, whose call panics in Go, is
  never checked for by authz.go and is not a value of these types.

  \<^verbatim>\<open>casbin.Enforcer\<close> is outside the repository too. The only thing authz.go asks of it
  is \<^verbatim>\<open>Enforce(subject, object, action)\<close>, which returns a boolean together with an
  error that may be nil; an enforcer is the record of that function.
\<close>

datatype error = Error string

record Enforcer =
  Enforce :: "string \<Rightarrow> string \<Rightarrow> string \<Rightarrow> bool \<times> error option"

type_synonym SubjectGetter = "RequestCtx \<Rightarrow> string"
type_synonym ObjectGetter = "RequestCtx \<Rightarrow> string"
type_synonym ActionGetter = "RequestCtx \<Rightarrow> string"
type_synonym 'w RequestHandler = "RequestCtx \<times> 'w \<Rightarrow> RequestCtx \<times> 'w"

record 'w Authorizer =
  enforcer :: Enforcer
  getSubject :: SubjectGetter
  getObject :: ObjectGetter
  getAction :: ActionGetter
  forbiddenHandler :: "'w RequestHandler"

type_synonym 'w Option = "'w Authorizer \<Rightarrow> 'w Authorizer"

section \<open>NewAuthorizer and its options\<close>

text \<open>The four function literals of NewAuthorizer (authz.go, lines 33 to 51).\<close>

definition defaultGetSubject :: SubjectGetter where
  "defaultGetSubject ctx =
     (let subject = Peek (request ctx) ''X-User''
      in if subject = [] then ''anonymous'' else subject)"

definition defaultGetObject :: ObjectGetter where
  "defaultGetObject ctx = Path ctx"

definition defaultGetAction :: ActionGetter where
  "defaultGetAction ctx = Method ctx"

definition defaultForbiddenHandler :: "'w RequestHandler" where
  "defaultForbiddenHandler st =
     (let ctx = fst st;
          ctx = SetStatusCode ctx StatusForbidden;
          ctx = SetContentType ctx ''text/plain; charset=utf-8'';
          ctx = WriteString ctx ''Forbidden''
      in (ctx, snd st))"

text \<open>
  NewAuthorizer builds the struct with the defaults and then runs
  \<^verbatim>\<open>for _, opt := range opts { opt(a) }\<close>: a left fold over the options in the order
  given, each one updating the authorizer built so far.
\<close>

definition NewAuthorizer :: "Enforcer \<Rightarrow> 'w Option list \<Rightarrow> 'w Authorizer" where
  "NewAuthorizer e opts =
     foldl (\<lambda>a opt. opt a)
       \<lparr>enforcer = e,
        getSubject = defaultGetSubject,
        getObject = defaultGetObject,
        getAction = defaultGetAction,
        forbiddenHandler = defaultForbiddenHandler\<rparr>
       opts"

definition WithSubjectGetter :: "SubjectGetter \<Rightarrow> 'w Option" where
  "WithSubjectGetter getter a = a\<lparr>getSubject := getter\<rparr>"

definition WithObjectGetter :: "ObjectGetter \<Rightarrow> 'w Option" where
  "WithObjectGetter getter a = a\<lparr>getObject := getter\<rparr>"

definition WithActionGetter :: "ActionGetter \<Rightarrow> 'w Option" where
  "WithActionGetter getter a = a\<lparr>getAction := getter\<rparr>"

definition WithForbiddenHandler :: "'w RequestHandler \<Rightarrow> 'w Option" where
  "WithForbiddenHandler handler a = a\<lparr>forbiddenHandler := handler\<rparr>"

text \<open>
  NewAuthorizerFromFiles calls \<^verbatim>\<open>casbin.NewEnforcer(modelPath, policyPath)\<close>, which
  reads two files and either fails or yields an enforcer. The loader is a parameter
  \<open>newEnforcer\<close>; the Go pair \<^verbatim>\<open>(*Authorizer, error)\<close> is a pair of options, \<open>None\<close>
  for nil.
\<close>

definition NewAuthorizerFromFiles ::
  "(string \<Rightarrow> string \<Rightarrow> error + Enforcer) \<Rightarrow> string \<Rightarrow> string \<Rightarrow> 'w Option list
     \<Rightarrow> 'w Authorizer option \<times> error option" where
  "NewAuthorizerFromFiles newEnforcer modelPath policyPath opts =
     (case newEnforcer modelPath policyPath of
        Inl err \<Rightarrow> (None, Some err)
      | Inr e \<Rightarrow> (Some (NewAuthorizer e opts), None))"

section \<open>The middleware\<close>

text \<open>
  The handler returned by \<^verbatim>\<open>Middleware\<close> ends in one of three places: after writing
  the error response (line 81), after calling the forbidden handler (line 85), or after
  calling next (line 87). \<open>Middleware_run\<close> is the body of that handler; beside the
  state it leaves, it returns the log of the terminal actions it performed, one entry
  per call site reached. The log is only an observation: nothing reads it.
  \<open>Middleware\<close> is the handler itself.
\<close>

datatype terminal_action = NextHandler | ForbiddenHandler | ErrorResponse

definition Middleware_run ::
  "'w Authorizer \<Rightarrow> 'w RequestHandler \<Rightarrow> RequestCtx \<times> 'w
     \<Rightarrow> terminal_action list \<times> (RequestCtx \<times> 'w)" where
  "Middleware_run a next st =
     (let ctx = fst st;
          subject = getSubject a ctx;
          object = getObject a ctx;
          action = getAction a ctx;
          (ok, err) = Enforce (enforcer a) subject object action
      in if err \<noteq> None then
           (let ctx = SetStatusCode ctx StatusInternalServerError;
                ctx = SetContentType ctx ''text/plain; charset=utf-8'';
                ctx = WriteString ctx ''Authorization error''
            in ([ErrorResponse], (ctx, snd st)))
         else if \<not> ok then ([ForbiddenHandler], forbiddenHandler a st)
         else ([NextHandler], next st))"

definition Middleware :: "'w Authorizer \<Rightarrow> 'w RequestHandler \<Rightarrow> 'w RequestHandler" where
  "Middleware a next st = snd (Middleware_run a next st)"

definition AuthorizerMiddleware ::
  "Enforcer \<Rightarrow> 'w Option list \<Rightarrow> 'w RequestHandler \<Rightarrow> 'w RequestHandler" where
  "AuthorizerMiddleware e opts = Middleware (NewAuthorizer e opts)"

section \<open>Fixtures from the README and the tests\<close>

text \<open>
  The README's model is a plain access-control list
  (\<^verbatim>\<open>m = r.sub == p.sub && r.obj == p.obj && r.act == p.act\<close>) over the three policy
  lines below; an enforcer built from it allows exactly the listed triples and never
  errs. \<open>failing_enforcer\<close> is an enforcer whose every query fails, and reports
  \<open>True\<close> beside the error.
\<close>

definition authz_policy :: "(string \<times> string \<times> string) list" where
  "authz_policy =
     [(''alice'', ''/'', ''GET''),
      (''alice'', ''/data1'', ''GET''),
      (''bob'', ''/data2'', ''POST'')]"

definition example_enforcer :: Enforcer where
  "example_enforcer =
     \<lparr>Enforce = (\<lambda>sub obj act. ((sub, obj, act) \<in> set authz_policy, None))\<rparr>"

definition failing_enforcer :: Enforcer where
  "failing_enforcer =
     \<lparr>Enforce = (\<lambda>sub obj act. (True, Some (Error ''matcher evaluation failed'')))\<rparr>"

definition example_newEnforcer :: "string \<Rightarrow> string \<Rightarrow> error + Enforcer" where
  "example_newEnforcer modelPath policyPath =
     (if modelPath = ''authz_model.conf'' \<and> policyPath = ''authz_policy.csv''
      then Inr example_enforcer
      else Inl (Error ''no such file or directory''))"

text \<open>
  The test helper \<^verbatim>\<open>runOnce\<close>: a fresh context with the header set only for a
  non-empty user, a next handler that sets the captured \<^verbatim>\<open>allowed\<close> flag, one call of
  the middleware, and the flag, status and body read back.
\<close>

definition newRequestCtx :: "string \<Rightarrow> string \<Rightarrow> string \<Rightarrow> RequestCtx" where
  "newRequestCtx user path method =
     \<lparr>request = \<lparr>Header = (if user \<noteq> [] then [(''X-User'', user)] else []),
                  reqPath = path, reqMethod = method\<rparr>,
      response = \<lparr>statusCode = 0, contentType = [], respBody = []\<rparr>\<rparr>"

definition markAllowed :: "bool RequestHandler" where
  "markAllowed st = (fst st, True)"

definition runOnce :: "bool Authorizer \<Rightarrow> string \<Rightarrow> string \<Rightarrow> string \<Rightarrow> bool \<times> int \<times> string" where
  "runOnce a user path method =
     (let h = Middleware a markAllowed;
          (ctx, allowed) = h (newRequestCtx user path method, False)
      in (allowed, StatusCode (response ctx), Body (response ctx)))"

text \<open>The custom forbidden handler of TestMiddleware_CustomForbiddenHandler.\<close>

definition teapotHandler :: "'w RequestHandler" where
  "teapotHandler st =
     (let ctx = fst st;
          ctx = SetStatusCode ctx 418;
          ctx = WriteString ctx ''nope''
      in (ctx, snd st))"

text \<open>A next handler that counts its own invocations in the captured state.\<close>

definition countingNext :: "nat RequestHandler" where
  "countingNext st = (fst st, Suc (snd st))"

text \<open>
  A forbidden handler that keeps a counter in a captured variable: the first denial is
  answered 403, every later one 429.
  \<^verbatim>\<open>
  seen := 0
  WithForbiddenHandler(func(ctx *fasthttp.RequestCtx) {
      if seen == 0 {
          ctx.SetStatusCode(403); ctx.WriteString("Forbidden")
      } else {
          ctx.SetStatusCode(429); ctx.WriteString("Too Many Requests")
      }
      seen++
  })
  \<close>
\<close>

definition throttlingHandler :: "nat RequestHandler" where
  "throttlingHandler st =
     (let ctx = fst st;
          seen = snd st;
          ctx = (if seen = 0 then WriteString (SetStatusCode ctx 403) ''Forbidden''
                 else WriteString (SetStatusCode ctx 429) ''Too Many Requests'')
      in (ctx, Suc seen))"

definition throttledAuthorizer :: "nat Authorizer" where
  "throttledAuthorizer = NewAuthorizer example_enforcer [WithForbiddenHandler throttlingHandler]"

section \<open>Basic facts\<close>

lemma Middleware_run_error:
  "snd (Enforce (enforcer a) (getSubject a ctx) (getObject a ctx) (getAction a ctx)) \<noteq> None \<Longrightarrow>
   Middleware_run a next (ctx, w) =
     ([ErrorResponse],
      (WriteString (SetContentType (SetStatusCode ctx StatusInternalServerError)
         ''text/plain; charset=utf-8'') ''Authorization error'', w))"
  by (cases "Enforce (enforcer a) (getSubject a ctx) (getObject a ctx) (getAction a ctx)")
    (simp add: Middleware_run_def Let_def)

lemma Middleware_run_allow:
  "Enforce (enforcer a) (getSubject a ctx) (getObject a ctx) (getAction a ctx) = (True, None) \<Longrightarrow>
   Middleware_run a next (ctx, w) = ([NextHandler], next (ctx, w))"
  by (simp add: Middleware_run_def Let_def)

lemma Middleware_run_deny:
  "Enforce (enforcer a) (getSubject a ctx) (getObject a ctx) (getAction a ctx) = (False, None) \<Longrightarrow>
   Middleware_run a next (ctx, w) = ([ForbiddenHandler], forbiddenHandler a (ctx, w))"
  by (simp add: Middleware_run_def Let_def)

lemma default_slots [simp]:
  "enforcer (NewAuthorizer e []) = e"
  "getSubject (NewAuthorizer e []) = defaultGetSubject"
  "getObject (NewAuthorizer e []) = defaultGetObject"
  "getAction (NewAuthorizer e []) = defaultGetAction"
  "forbiddenHandler (NewAuthorizer e []) = defaultForbiddenHandler"
  by (simp_all add: NewAuthorizer_def)

lemma written_response:
  "response (SetStatusCode ctx code) = (response ctx)\<lparr>statusCode := code\<rparr>"
  "response (SetContentType ctx ct) = (response ctx)\<lparr>contentType := ct\<rparr>"
  "response (WriteString ctx s) = (response ctx)\<lparr>respBody := respBody (response ctx) @ s\<rparr>"
  "request (SetStatusCode ctx code) = request ctx"
  "request (SetContentType ctx ct) = request ctx"
  "request (WriteString ctx s) = request ctx"
  by (simp_all add: SetStatusCode_def SetContentType_def WriteString_def)

section \<open>The engine-error branch\<close>

text \<open>
  Claim C1. Whenever the error returned by Enforce is not nil, whatever the boolean
  beside it, the middleware ends in the error response and in nothing else: the status
  code is 500 (so in the server-error class), the content type is plain text, the text
  "Authorization error" is appended to the body (so the body is not empty, it is not
  "Forbidden", and on a response not yet written to it is exactly that text), the
  response differs from the one the default forbidden handler would have left, the
  request and the captured state are untouched, and the outcome is the same for every
  next handler and every forbidden handler, neither of which is called.
\<close>

theorem engine_error_fails_closed:
  assumes "snd (Enforce (enforcer a) (getSubject a ctx) (getObject a ctx) (getAction a ctx)) \<noteq> None"
  shows "fst (Middleware_run a next (ctx, w)) = [ErrorResponse]
    \<and> Middleware a next (ctx, w) =
        (WriteString (SetContentType (SetStatusCode ctx StatusInternalServerError)
           ''text/plain; charset=utf-8'') ''Authorization error'', w)
    \<and> StatusCode (response (fst (Middleware a next (ctx, w)))) = 500
    \<and> 500 \<le> StatusCode (response (fst (Middleware a next (ctx, w))))
    \<and> StatusCode (response (fst (Middleware a next (ctx, w)))) < 600
    \<and> contentType (response (fst (Middleware a next (ctx, w)))) = ''text/plain; charset=utf-8''
    \<and> Body (response (fst (Middleware a next (ctx, w)))) =
        Body (response ctx) @ ''Authorization error''
    \<and> Body (response (fst (Middleware a next (ctx, w)))) \<noteq> []
    \<and> Body (response (fst (Middleware a next (ctx, w)))) \<noteq> ''Forbidden''
    \<and> (Body (response ctx) = [] \<longrightarrow>
         Body (response (fst (Middleware a next (ctx, w)))) = ''Authorization error'')
    \<and> response (fst (Middleware a next (ctx, w))) \<noteq>
        response (fst (defaultForbiddenHandler (ctx, w)))
    \<and> request (fst (Middleware a next (ctx, w))) = request ctx
    \<and> snd (Middleware a next (ctx, w)) = w
    \<and> Middleware_run (a\<lparr>forbiddenHandler := handler'\<rparr>) next' (ctx, w) =
        Middleware_run a next (ctx, w)"
proof -
  let ?out = "WriteString (SetContentType (SetStatusCode ctx StatusInternalServerError)
           ''text/plain; charset=utf-8'') ''Authorization error''"
  have run: "Middleware_run a nxt (ctx, w) = ([ErrorResponse], (?out, w))" for nxt
    using assms by (rule Middleware_run_error)
  have run': "Middleware_run (a\<lparr>forbiddenHandler := handler'\<rparr>) next' (ctx, w) =
      ([ErrorResponse], (?out, w))"
    using assms by (intro Middleware_run_error) simp
  have mw: "Middleware a next (ctx, w) = (?out, w)"
    by (simp add: Middleware_def run)
  have status: "StatusCode (response ?out) = 500"
    by (simp add: written_response StatusCode_def StatusInternalServerError_def)
  have ctype: "contentType (response ?out) = ''text/plain; charset=utf-8''"
    by (simp add: written_response)
  have body: "Body (response ?out) = Body (response ctx) @ ''Authorization error''"
    by (simp add: written_response Body_def)
  have req: "request ?out = request ctx"
    by (simp add: written_response)
  have differs: "response ?out \<noteq> response (fst (defaultForbiddenHandler (ctx, w)))"
  proof
    assume "response ?out = response (fst (defaultForbiddenHandler (ctx, w)))"
    then have "StatusCode (response ?out) =
        StatusCode (response (fst (defaultForbiddenHandler (ctx, w))))"
      by simp
    then have "StatusCode (response (fst (defaultForbiddenHandler (ctx, w)))) = 500"
      by (simp only: status)
    then show False
      by (simp add: defaultForbiddenHandler_def Let_def written_response
          StatusCode_def StatusForbidden_def)
  qed
  have not_forbidden: "Body (response ?out) \<noteq> ''Forbidden''"
  proof
    assume "Body (response ?out) = ''Forbidden''"
    then have "length (Body (response ctx) @ ''Authorization error'') = length ''Forbidden''"
      by (simp only: body)
    then show False by simp
  qed
  show ?thesis
    unfolding mw run run' fst_conv snd_conv
    using status ctype req differs not_forbidden
    by (simp add: body)
qed

theorem engine_error_fails_closed_witness:
  "snd (Enforce (enforcer (NewAuthorizer failing_enforcer [] :: bool Authorizer))
         (getSubject (NewAuthorizer failing_enforcer [] :: bool Authorizer)
            (newRequestCtx ''alice'' ''/'' ''GET''))
         (getObject (NewAuthorizer failing_enforcer [] :: bool Authorizer)
            (newRequestCtx ''alice'' ''/'' ''GET''))
         (getAction (NewAuthorizer failing_enforcer [] :: bool Authorizer)
            (newRequestCtx ''alice'' ''/'' ''GET'')))
     = Some (Error ''matcher evaluation failed'')
   \<and> fst (Enforce failing_enforcer ''alice'' ''/'' ''GET'') = True
   \<and> fst (Middleware_run (NewAuthorizer failing_enforcer []) markAllowed
        (newRequestCtx ''alice'' ''/'' ''GET'', False)) = [ErrorResponse]
   \<and> runOnce (NewAuthorizer failing_enforcer []) ''alice'' ''/'' ''GET'' =
        (False, 500, ''Authorization error'')"
proof -
  let ?a = "NewAuthorizer failing_enforcer [] :: bool Authorizer"
  let ?ctx = "newRequestCtx ''alice'' ''/'' ''GET''"
  have err: "snd (Enforce (enforcer ?a) (getSubject ?a ?ctx) (getObject ?a ?ctx)
      (getAction ?a ?ctx)) \<noteq> None"
    by (simp add: failing_enforcer_def)
  note fc = engine_error_fails_closed [OF err, of markAllowed False]
  have empty: "Body (response ?ctx) = []"
    by (simp add: newRequestCtx_def Body_def)
  from fc have log: "fst (Middleware_run ?a markAllowed (?ctx, False)) = [ErrorResponse]"
    by blast
  from fc have allowed: "snd (Middleware ?a markAllowed (?ctx, False)) = False"
    by blast
  from fc have status: "StatusCode (response (fst (Middleware ?a markAllowed (?ctx, False)))) = 500"
    by blast
  from fc empty
  have body: "Body (response (fst (Middleware ?a markAllowed (?ctx, False)))) = ''Authorization error''"
    by blast
  have "runOnce ?a ''alice'' ''/'' ''GET'' = (False, 500, ''Authorization error'')"
    using allowed status body
    by (simp add: runOnce_def Let_def split_beta)
  with log show ?thesis
    by (simp add: failing_enforcer_def)
qed

section \<open>The allow branch\<close>

lemma example_enforcer_alice:
  "Enforce example_enforcer ''alice'' ''/'' ''GET'' = (True, None)"
  by (simp add: example_enforcer_def authz_policy_def)

lemma example_enforcer_bob:
  "Enforce example_enforcer ''bob'' ''/'' ''GET'' = (False, None)"
  by (simp add: example_enforcer_def authz_policy_def)

lemma default_triple:
  "defaultGetSubject (newRequestCtx user path method) =
     (if user = [] then ''anonymous'' else user)"
  "defaultGetObject (newRequestCtx user path method) = path"
  "defaultGetAction (newRequestCtx user path method) = method"
  by (simp_all add: defaultGetSubject_def defaultGetObject_def defaultGetAction_def
      newRequestCtx_def Peek_def Path_def Method_def)

text \<open>
  Claim C2. Whenever Enforce returns (true, nil) for the triple the getters derive, the
  middleware performs the single terminal action of calling next, on the very state it
  received, and its whole effect is next's effect: the middleware writes nothing of its
  own. As this holds for every next handler, a handler that counts its own calls counts
  exactly one.
\<close>

theorem allow_calls_next_unmodified:
  assumes "Enforce (enforcer a) (getSubject a ctx) (getObject a ctx) (getAction a ctx) = (True, None)"
  shows "Middleware_run a next (ctx, w) = ([NextHandler], next (ctx, w))
    \<and> Middleware a next (ctx, w) = next (ctx, w)"
  using assms by (simp add: Middleware_def Middleware_run_allow)

theorem allow_calls_next_unmodified_witness:
  "Enforce (enforcer (NewAuthorizer example_enforcer [] :: nat Authorizer))
     (getSubject (NewAuthorizer example_enforcer [] :: nat Authorizer)
        (newRequestCtx ''alice'' ''/'' ''GET''))
     (getObject (NewAuthorizer example_enforcer [] :: nat Authorizer)
        (newRequestCtx ''alice'' ''/'' ''GET''))
     (getAction (NewAuthorizer example_enforcer [] :: nat Authorizer)
        (newRequestCtx ''alice'' ''/'' ''GET''))
     = (True, None)
   \<and> Middleware_run (NewAuthorizer example_enforcer []) countingNext
        (newRequestCtx ''alice'' ''/'' ''GET'', 0) =
        ([NextHandler], (newRequestCtx ''alice'' ''/'' ''GET'', 1))
   \<and> Middleware (NewAuthorizer example_enforcer []) countingNext
        (newRequestCtx ''alice'' ''/'' ''GET'', 0) = (newRequestCtx ''alice'' ''/'' ''GET'', 1)"
proof -
  let ?a = "NewAuthorizer example_enforcer [] :: nat Authorizer"
  let ?ctx = "newRequestCtx ''alice'' ''/'' ''GET''"
  have ok: "Enforce (enforcer ?a) (getSubject ?a ?ctx) (getObject ?a ?ctx) (getAction ?a ?ctx)
      = (True, None)"
    by (simp add: default_triple example_enforcer_alice)
  from allow_calls_next_unmodified [OF ok, of countingNext 0] ok
  show ?thesis
    by (simp add: countingNext_def)
qed

section \<open>The deny branch\<close>

text \<open>
  Claim C3. Whenever Enforce returns (false, nil), the middleware performs the single
  terminal action of calling the configured forbidden handler on the state it received,
  and the state it leaves is exactly the one that handler leaves; next is not called,
  so the outcome is the same for every next handler. With the tests' handler, which
  sets status 418 and writes "nope", the status read back is 418 and the body is the
  body so far followed by "nope".
\<close>

theorem deny_runs_forbidden_handler:
  assumes "Enforce (enforcer a) (getSubject a ctx) (getObject a ctx) (getAction a ctx) = (False, None)"
  shows "Middleware_run a next (ctx, w) = ([ForbiddenHandler], forbiddenHandler a (ctx, w))
    \<and> Middleware a next (ctx, w) = forbiddenHandler a (ctx, w)
    \<and> Middleware_run a next' (ctx, w) = Middleware_run a next (ctx, w)
    \<and> (forbiddenHandler a = teapotHandler \<longrightarrow>
         StatusCode (response (fst (Middleware a next (ctx, w)))) = 418
       \<and> Body (response (fst (Middleware a next (ctx, w)))) = Body (response ctx) @ ''nope''
       \<and> snd (Middleware a next (ctx, w)) = w)"
proof -
  have run: "Middleware_run a nxt (ctx, w) = ([ForbiddenHandler], forbiddenHandler a (ctx, w))"
    for nxt
    using assms by (rule Middleware_run_deny)
  have teapot: "StatusCode (response (fst (teapotHandler (ctx, w)))) = 418
      \<and> Body (response (fst (teapotHandler (ctx, w)))) = Body (response ctx) @ ''nope''
      \<and> snd (teapotHandler (ctx, w)) = w"
    by (simp add: teapotHandler_def Let_def written_response StatusCode_def Body_def)
  show ?thesis
    using teapot by (simp add: Middleware_def run)
qed

theorem deny_runs_forbidden_handler_witness:
  "Enforce
     (enforcer
        (NewAuthorizer example_enforcer [WithForbiddenHandler teapotHandler] :: bool Authorizer))
     (getSubject
        (NewAuthorizer example_enforcer [WithForbiddenHandler teapotHandler] :: bool Authorizer)
        (newRequestCtx ''bob'' ''/'' ''GET''))
     (getObject
        (NewAuthorizer example_enforcer [WithForbiddenHandler teapotHandler] :: bool Authorizer)
        (newRequestCtx ''bob'' ''/'' ''GET''))
     (getAction
        (NewAuthorizer example_enforcer [WithForbiddenHandler teapotHandler] :: bool Authorizer)
        (newRequestCtx ''bob'' ''/'' ''GET''))
     = (False, None)
   \<and> fst (Middleware_run (NewAuthorizer example_enforcer [WithForbiddenHandler teapotHandler])
        markAllowed (newRequestCtx ''bob'' ''/'' ''GET'', False)) = [ForbiddenHandler]
   \<and> runOnce (NewAuthorizer example_enforcer [WithForbiddenHandler teapotHandler])
        ''bob'' ''/'' ''GET'' = (False, 418, ''nope'')"
proof -
  let ?a = "NewAuthorizer example_enforcer [WithForbiddenHandler teapotHandler] :: bool Authorizer"
  let ?ctx = "newRequestCtx ''bob'' ''/'' ''GET''"
  have slots: "enforcer ?a = example_enforcer" "getSubject ?a = defaultGetSubject"
    "getObject ?a = defaultGetObject" "getAction ?a = defaultGetAction"
    "forbiddenHandler ?a = teapotHandler"
    by (simp_all add: NewAuthorizer_def WithForbiddenHandler_def)
  have deny: "Enforce (enforcer ?a) (getSubject ?a ?ctx) (getObject ?a ?ctx) (getAction ?a ?ctx)
      = (False, None)"
    by (simp add: slots default_triple example_enforcer_bob)
  note d = deny_runs_forbidden_handler [OF deny, of markAllowed False]
  have empty: "Body (response ?ctx) = []"
    by (simp add: newRequestCtx_def Body_def)
  from d have log: "fst (Middleware_run ?a markAllowed (?ctx, False)) = [ForbiddenHandler]"
    by simp
  from d slots(5)
  have status: "StatusCode (response (fst (Middleware ?a markAllowed (?ctx, False)))) = 418"
    and allowed: "snd (Middleware ?a markAllowed (?ctx, False)) = False"
    and "Body (response (fst (Middleware ?a markAllowed (?ctx, False)))) =
        Body (response ?ctx) @ ''nope''"
    by blast+
  with empty
  have body: "Body (response (fst (Middleware ?a markAllowed (?ctx, False)))) = ''nope''"
    by simp
  have "runOnce ?a ''bob'' ''/'' ''GET'' = (False, 418, ''nope'')"
    using allowed status body
    by (simp add: runOnce_def Let_def split_beta)
  with log deny show ?thesis
    by simp
qed

section \<open>One terminal action per request\<close>

text \<open>
  Claim C4. For every authorizer, next handler and incoming state, the log of terminal
  actions has exactly one entry. Which one is decided by the result of Enforce alone:
  next for (true, nil), the forbidden handler for (false, nil), the error response for
  a non-nil error; these three conditions exclude one another and cover every result.
  The state left behind is the effect of that one action on the incoming state and of
  nothing else.
\<close>

theorem exactly_one_terminal_action:
  "\<exists>t. fst (Middleware_run a next (ctx, w)) = [t]
     \<and> length (fst (Middleware_run a next (ctx, w))) = 1
     \<and> (t = NextHandler \<longleftrightarrow>
          Enforce (enforcer a) (getSubject a ctx) (getObject a ctx) (getAction a ctx) = (True, None))
     \<and> (t = ForbiddenHandler \<longleftrightarrow>
          Enforce (enforcer a) (getSubject a ctx) (getObject a ctx) (getAction a ctx) = (False, None))
     \<and> (t = ErrorResponse \<longleftrightarrow>
          snd (Enforce (enforcer a) (getSubject a ctx) (getObject a ctx) (getAction a ctx)) \<noteq> None)
     \<and> (t = NextHandler \<longrightarrow> snd (Middleware_run a next (ctx, w)) = next (ctx, w))
     \<and> (t = ForbiddenHandler \<longrightarrow>
          snd (Middleware_run a next (ctx, w)) = forbiddenHandler a (ctx, w))
     \<and> (t = ErrorResponse \<longrightarrow>
          snd (Middleware_run a next (ctx, w)) =
            (WriteString (SetContentType (SetStatusCode ctx StatusInternalServerError)
               ''text/plain; charset=utf-8'') ''Authorization error'', w))"
proof -
  obtain ok err where res:
    "Enforce (enforcer a) (getSubject a ctx) (getObject a ctx) (getAction a ctx) = (ok, err)"
    by (cases "Enforce (enforcer a) (getSubject a ctx) (getObject a ctx) (getAction a ctx)")
  show ?thesis
  proof (cases err)
    case (Some e)
    with res have "snd (Enforce (enforcer a) (getSubject a ctx) (getObject a ctx)
        (getAction a ctx)) \<noteq> None"
      by simp
    from Middleware_run_error [OF this] res Some show ?thesis
      by simp
  next
    case None
    show ?thesis
    proof (cases ok)
      case True
      with res None Middleware_run_allow [of a ctx "next" w] show ?thesis
        by simp
    next
      case False
      with res None Middleware_run_deny [of a ctx "next" w] show ?thesis
        by simp
    qed
  qed
qed

theorem exactly_one_terminal_action_witness:
  "Middleware_run (NewAuthorizer example_enforcer []) markAllowed
     (newRequestCtx [] ''/'' ''GET'', False) =
     ([ForbiddenHandler], defaultForbiddenHandler (newRequestCtx [] ''/'' ''GET'', False))
   \<and> Middleware_run (NewAuthorizer example_enforcer []) markAllowed
     (newRequestCtx ''alice'' ''/'' ''GET'', False) =
     ([NextHandler], (newRequestCtx ''alice'' ''/'' ''GET'', True))
   \<and> fst (Middleware_run (NewAuthorizer failing_enforcer []) markAllowed
     (newRequestCtx ''alice'' ''/'' ''GET'', False)) = [ErrorResponse]"
proof -
  let ?a = "NewAuthorizer example_enforcer [] :: bool Authorizer"
  let ?f = "NewAuthorizer failing_enforcer [] :: bool Authorizer"
  let ?anon = "newRequestCtx [] ''/'' ''GET''"
  let ?alice = "newRequestCtx ''alice'' ''/'' ''GET''"
  have anon: "Enforce (enforcer ?a) (getSubject ?a ?anon) (getObject ?a ?anon) (getAction ?a ?anon)
      = (False, None)"
    by (simp add: default_triple example_enforcer_def authz_policy_def)
  have alice: "Enforce (enforcer ?a) (getSubject ?a ?alice) (getObject ?a ?alice)
      (getAction ?a ?alice) = (True, None)"
    by (simp add: default_triple example_enforcer_alice)
  have failing: "snd (Enforce (enforcer ?f) (getSubject ?f ?alice) (getObject ?f ?alice)
      (getAction ?f ?alice)) \<noteq> None"
    by (simp add: failing_enforcer_def)
  from exactly_one_terminal_action [of ?a markAllowed ?anon False] anon
  have 1: "Middleware_run ?a markAllowed (?anon, False) =
      ([ForbiddenHandler], defaultForbiddenHandler (?anon, False))"
    by (auto simp: prod_eq_iff)
  from exactly_one_terminal_action [of ?a markAllowed ?alice False] alice
  have 2: "Middleware_run ?a markAllowed (?alice, False) = ([NextHandler], (?alice, True))"
    by (auto simp: prod_eq_iff markAllowed_def)
  from exactly_one_terminal_action [of ?f markAllowed ?alice False] failing
  have 3: "fst (Middleware_run ?f markAllowed (?alice, False)) = [ErrorResponse]"
    by auto
  from 1 2 3 show ?thesis
    by simp
qed

section \<open>The default getters\<close>

text \<open>
  Claim C5. The default subject getter of NewAuthorizer returns "anonymous" when the
  request has no X-User header line and when the value of that header is empty, and the
  header's value unchanged when it is not empty. It is total: on every context it
  returns a string, and never the empty one.
\<close>

theorem default_subject_anonymous_or_header:
  "getSubject (NewAuthorizer e []) ctx =
     (if Peek (request ctx) ''X-User'' = [] then ''anonymous'' else Peek (request ctx) ''X-User'')
   \<and> (''X-User'' \<notin> fst ` set (Header (request ctx)) \<longrightarrow>
        getSubject (NewAuthorizer e []) ctx = ''anonymous'')
   \<and> (map_of (Header (request ctx)) ''X-User'' = Some [] \<longrightarrow>
        getSubject (NewAuthorizer e []) ctx = ''anonymous'')
   \<and> (\<forall>v. map_of (Header (request ctx)) ''X-User'' = Some v \<and> v \<noteq> [] \<longrightarrow>
        getSubject (NewAuthorizer e []) ctx = v)
   \<and> getSubject (NewAuthorizer e []) ctx \<noteq> []"
proof -
  have absent: "map_of (Header (request ctx)) ''X-User'' = None"
    if "''X-User'' \<notin> fst ` set (Header (request ctx))"
    using that by (simp add: map_of_eq_None_iff)
  show ?thesis
    using absent by (auto simp: defaultGetSubject_def Peek_def Let_def)
qed

theorem default_subject_anonymous_or_header_witness:
  "getSubject (NewAuthorizer example_enforcer []) (newRequestCtx [] ''/'' ''GET'') = ''anonymous''
   \<and> getSubject (NewAuthorizer example_enforcer [])
        \<lparr>request = \<lparr>Header = [(''X-User'', [])], reqPath = ''/'', reqMethod = ''GET''\<rparr>,
         response = \<lparr>statusCode = 0, contentType = [], respBody = []\<rparr>\<rparr> = ''anonymous''
   \<and> getSubject (NewAuthorizer example_enforcer []) (newRequestCtx ''alice'' ''/'' ''GET'') = ''alice''"
proof -
  let ?a = "NewAuthorizer example_enforcer [] :: 'a Authorizer"
  let ?empty = "\<lparr>request = \<lparr>Header = [(''X-User'', [])], reqPath = ''/'', reqMethod = ''GET''\<rparr>,
         response = \<lparr>statusCode = 0, contentType = [], respBody = []\<rparr>\<rparr>"
  have absent: "''X-User'' \<notin> fst ` set (Header (request (newRequestCtx [] ''/'' ''GET'')))"
    by (simp add: newRequestCtx_def)
  have empty: "map_of (Header (request ?empty)) ''X-User'' = Some []"
    by simp
  have present: "map_of (Header (request (newRequestCtx ''alice'' ''/'' ''GET''))) ''X-User''
      = Some ''alice'' \<and> ''alice'' \<noteq> []"
    by (simp add: newRequestCtx_def)
  from default_subject_anonymous_or_header [of example_enforcer "newRequestCtx [] ''/'' ''GET''"]
    absent
  have 1: "getSubject ?a (newRequestCtx [] ''/'' ''GET'') = ''anonymous''"
    by blast
  from default_subject_anonymous_or_header [of example_enforcer ?empty] empty
  have 2: "getSubject ?a ?empty = ''anonymous''"
    by blast
  from default_subject_anonymous_or_header
    [of example_enforcer "newRequestCtx ''alice'' ''/'' ''GET''"] present
  have 3: "getSubject ?a (newRequestCtx ''alice'' ''/'' ''GET'') = ''alice''"
    by blast
  from 1 2 3 show ?thesis
    by simp
qed


section \<open>Repeated requests\<close>

lemma throttled_slots:
  "enforcer throttledAuthorizer = example_enforcer"
  "getSubject throttledAuthorizer = defaultGetSubject"
  "getObject throttledAuthorizer = defaultGetObject"
  "getAction throttledAuthorizer = defaultGetAction"
  "forbiddenHandler throttledAuthorizer = throttlingHandler"
  by (simp_all add: throttledAuthorizer_def NewAuthorizer_def WithForbiddenHandler_def)

lemma throttled_denies_bob:
  "Middleware throttledAuthorizer id (newRequestCtx ''bob'' ''/'' ''GET'', seen) =
     throttlingHandler (newRequestCtx ''bob'' ''/'' ''GET'', seen)"
  "fst (Middleware_run throttledAuthorizer id (newRequestCtx ''bob'' ''/'' ''GET'', seen)) =
     [ForbiddenHandler]"
  by (simp_all add: Middleware_def Middleware_run_deny throttled_slots default_triple
      example_enforcer_bob)

text \<open>
  Claim C7, as stated, fails. Two requests with the same header, path and method are
  sent through one authorizer over one unchanged enforcer. Both are denied, so the
  terminal action is the same; but the configured forbidden handler answers the first
  with 403 "Forbidden" and the second with 429 "Too Many Requests", because it counts
  in a variable of its own. The status and the body of the two outcomes differ.
\<close>

theorem same_request_different_response_counterexample:
  "fst (Middleware_run throttledAuthorizer id (newRequestCtx ''bob'' ''/'' ''GET'', 0)) =
     fst (Middleware_run throttledAuthorizer id (newRequestCtx ''bob'' ''/'' ''GET'', 1))
   \<and> snd (Middleware throttledAuthorizer id (newRequestCtx ''bob'' ''/'' ''GET'', 0)) = 1
   \<and> StatusCode (response (fst (Middleware throttledAuthorizer id
        (newRequestCtx ''bob'' ''/'' ''GET'', 0)))) = 403
   \<and> StatusCode (response (fst (Middleware throttledAuthorizer id
        (newRequestCtx ''bob'' ''/'' ''GET'', 1)))) = 429
   \<and> Body (response (fst (Middleware throttledAuthorizer id
        (newRequestCtx ''bob'' ''/'' ''GET'', 0)))) = ''Forbidden''
   \<and> Body (response (fst (Middleware throttledAuthorizer id
        (newRequestCtx ''bob'' ''/'' ''GET'', 1)))) = ''Too Many Requests''
   \<and> StatusCode (response (fst (Middleware throttledAuthorizer id
        (newRequestCtx ''bob'' ''/'' ''GET'', 0)))) \<noteq>
      StatusCode (response (fst (Middleware throttledAuthorizer id
        (newRequestCtx ''bob'' ''/'' ''GET'', 1))))
   \<and> Body (response (fst (Middleware throttledAuthorizer id
        (newRequestCtx ''bob'' ''/'' ''GET'', 0)))) \<noteq>
      Body (response (fst (Middleware throttledAuthorizer id
        (newRequestCtx ''bob'' ''/'' ''GET'', 1))))"
proof -
  let ?ctx = "newRequestCtx ''bob'' ''/'' ''GET''"
  have first: "Middleware throttledAuthorizer id (?ctx, 0) =
      (WriteString (SetStatusCode ?ctx 403) ''Forbidden'', 1)"
    by (simp add: throttled_denies_bob throttlingHandler_def Let_def)
  have second: "Middleware throttledAuthorizer id (?ctx, 1) =
      (WriteString (SetStatusCode ?ctx 429) ''Too Many Requests'', 2)"
    by (simp add: throttled_denies_bob throttlingHandler_def Let_def)
  have fresh: "respBody (response ?ctx) = []"
    by (simp add: newRequestCtx_def)
  show ?thesis
    unfolding first second fst_conv snd_conv
    by (simp add: throttled_denies_bob written_response StatusCode_def Body_def fresh)
qed

text \<open>
  Claim C7, amended. Two invocations of one middleware whose contexts yield the same
  subject, object and action perform the same terminal action, whatever else differs
  between the contexts and the captured states. When that action is the error response,
  or the forbidden handler and the handler is the default one, and the two responses
  were equal before, they are equal after: same status, content type and body. When
  the action is a call of the forbidden handler or of next, the state left is the one
  that handler leaves on the state given to it, so it is the same whenever the handler
  answers the two states alike.
\<close>

theorem same_triple_same_terminal_action:
  assumes "getSubject a ctx1 = getSubject a ctx2"
    and "getObject a ctx1 = getObject a ctx2"
    and "getAction a ctx1 = getAction a ctx2"
  shows "fst (Middleware_run a next (ctx1, w1)) = fst (Middleware_run a next (ctx2, w2))
    \<and> (fst (Middleware_run a next (ctx1, w1)) = [ErrorResponse] \<and> response ctx1 = response ctx2 \<longrightarrow>
         response (fst (Middleware a next (ctx1, w1))) =
         response (fst (Middleware a next (ctx2, w2))))
    \<and> (fst (Middleware_run a next (ctx1, w1)) = [ForbiddenHandler]
         \<and> forbiddenHandler a = defaultForbiddenHandler \<and> response ctx1 = response ctx2 \<longrightarrow>
         response (fst (Middleware a next (ctx1, w1))) =
         response (fst (Middleware a next (ctx2, w2))))
    \<and> (fst (Middleware_run a next (ctx1, w1)) = [ForbiddenHandler] \<longrightarrow>
         Middleware a next (ctx1, w1) = forbiddenHandler a (ctx1, w1)
       \<and> Middleware a next (ctx2, w2) = forbiddenHandler a (ctx2, w2))
    \<and> (fst (Middleware_run a next (ctx1, w1)) = [NextHandler] \<longrightarrow>
         Middleware a next (ctx1, w1) = next (ctx1, w1)
       \<and> Middleware a next (ctx2, w2) = next (ctx2, w2))"
proof -
  obtain ok err where res1:
    "Enforce (enforcer a) (getSubject a ctx1) (getObject a ctx1) (getAction a ctx1) = (ok, err)"
    by (cases "Enforce (enforcer a) (getSubject a ctx1) (getObject a ctx1) (getAction a ctx1)")
  with assms have res2:
    "Enforce (enforcer a) (getSubject a ctx2) (getObject a ctx2) (getAction a ctx2) = (ok, err)"
    by simp
  show ?thesis
  proof (cases err)
    case (Some e)
    with res1 res2
    have "snd (Enforce (enforcer a) (getSubject a ctx1) (getObject a ctx1) (getAction a ctx1))
        \<noteq> None"
      and "snd (Enforce (enforcer a) (getSubject a ctx2) (getObject a ctx2) (getAction a ctx2))
        \<noteq> None"
      by simp_all
    then show ?thesis
      by (simp add: Middleware_def Middleware_run_error written_response)
  next
    case None
    show ?thesis
    proof (cases ok)
      case True
      with res1 res2 None show ?thesis
        by (simp add: Middleware_def Middleware_run_allow)
    next
      case False
      with res1 res2 None show ?thesis
        by (simp add: Middleware_def Middleware_run_deny defaultForbiddenHandler_def Let_def
            written_response)
    qed
  qed
qed

theorem same_triple_same_terminal_action_witness:
  "getSubject (NewAuthorizer example_enforcer [] :: bool Authorizer)
      (newRequestCtx ''bob'' ''/'' ''GET'') =
    getSubject (NewAuthorizer example_enforcer [] :: bool Authorizer)
      \<lparr>request = \<lparr>Header = [(''X-Request-Id'', ''2''), (''X-User'', ''bob'')],
                   reqPath = ''/'', reqMethod = ''GET''\<rparr>,
       response = \<lparr>statusCode = 0, contentType = [], respBody = []\<rparr>\<rparr>
   \<and> fst (Middleware_run (NewAuthorizer example_enforcer []) markAllowed
        (newRequestCtx ''bob'' ''/'' ''GET'', False)) = [ForbiddenHandler]
   \<and> fst (Middleware_run (NewAuthorizer example_enforcer []) markAllowed
        (\<lparr>request = \<lparr>Header = [(''X-Request-Id'', ''2''), (''X-User'', ''bob'')],
                     reqPath = ''/'', reqMethod = ''GET''\<rparr>,
          response = \<lparr>statusCode = 0, contentType = [], respBody = []\<rparr>\<rparr>, True))
        = [ForbiddenHandler]
   \<and> response (fst (Middleware (NewAuthorizer example_enforcer []) markAllowed
        (newRequestCtx ''bob'' ''/'' ''GET'', False))) =
      response (fst (Middleware (NewAuthorizer example_enforcer []) markAllowed
        (\<lparr>request = \<lparr>Header = [(''X-Request-Id'', ''2''), (''X-User'', ''bob'')],
                     reqPath = ''/'', reqMethod = ''GET''\<rparr>,
          response = \<lparr>statusCode = 0, contentType = [], respBody = []\<rparr>\<rparr>, True)))"
proof -
  let ?a = "NewAuthorizer example_enforcer [] :: bool Authorizer"
  let ?c1 = "newRequestCtx ''bob'' ''/'' ''GET''"
  let ?c2 = "\<lparr>request = \<lparr>Header = [(''X-Request-Id'', ''2''), (''X-User'', ''bob'')],
                   reqPath = ''/'', reqMethod = ''GET''\<rparr>,
       response = \<lparr>statusCode = 0, contentType = [], respBody = []\<rparr>\<rparr>"
  have s: "getSubject ?a ?c1 = getSubject ?a ?c2"
    and o: "getObject ?a ?c1 = getObject ?a ?c2"
    and m: "getAction ?a ?c1 = getAction ?a ?c2"
    by (simp_all add: defaultGetSubject_def defaultGetObject_def defaultGetAction_def
        newRequestCtx_def Peek_def Path_def Method_def)
  note same = same_triple_same_terminal_action [OF s o m, of markAllowed False True]
  have log1: "fst (Middleware_run ?a markAllowed (?c1, False)) = [ForbiddenHandler]"
    by (simp add: Middleware_run_deny default_triple example_enforcer_bob)
  from same have eq: "fst (Middleware_run ?a markAllowed (?c1, False)) =
      fst (Middleware_run ?a markAllowed (?c2, True))"
    by (rule conjunct1)
  have log2: "fst (Middleware_run ?a markAllowed (?c2, True)) = [ForbiddenHandler]"
    unfolding eq [symmetric] by (rule log1)
  have before: "response ?c1 = response ?c2"
    by (simp add: newRequestCtx_def)
  have default: "forbiddenHandler ?a = defaultForbiddenHandler"
    by simp
  from same log1 before default
  have after: "response (fst (Middleware ?a markAllowed (?c1, False))) =
      response (fst (Middleware ?a markAllowed (?c2, True)))"
    by blast
  from s log1 log2 after show ?thesis
    by (intro conjI)
qed

section \<open>Construction from files\<close>

text \<open>
  Claim C8. Whenever the loader fails on the two paths, NewAuthorizerFromFiles returns
  the loader's error itself together with no authorizer; whenever the loader yields an
  enforcer, it returns the authorizer that NewAuthorizer builds from that enforcer and
  the options, together with no error. So the authorizer is nil exactly when the error
  is not.
\<close>

theorem from_files_error_or_authorizer:
  "(\<forall>err. newEnforcer modelPath policyPath = Inl err \<longrightarrow>
      NewAuthorizerFromFiles newEnforcer modelPath policyPath opts = (None, Some err))
   \<and> (\<forall>e. newEnforcer modelPath policyPath = Inr e \<longrightarrow>
      NewAuthorizerFromFiles newEnforcer modelPath policyPath opts =
        (Some (NewAuthorizer e opts), None))
   \<and> (fst (NewAuthorizerFromFiles newEnforcer modelPath policyPath opts) = None \<longleftrightarrow>
      snd (NewAuthorizerFromFiles newEnforcer modelPath policyPath opts) \<noteq> None)"
  by (cases "newEnforcer modelPath policyPath") (simp_all add: NewAuthorizerFromFiles_def)

theorem from_files_error_or_authorizer_witness:
  "(NewAuthorizerFromFiles example_newEnforcer ''missing.conf'' ''authz_policy.csv''
      [WithForbiddenHandler teapotHandler]
      :: bool Authorizer option \<times> error option) =
     (None, Some (Error ''no such file or directory''))
   \<and> (NewAuthorizerFromFiles example_newEnforcer ''authz_model.conf'' ''authz_policy.csv''
      [WithForbiddenHandler teapotHandler]
      :: bool Authorizer option \<times> error option) =
     (Some (NewAuthorizer example_enforcer [WithForbiddenHandler teapotHandler]), None)"
proof -
  have missing: "example_newEnforcer ''missing.conf'' ''authz_policy.csv'' =
      Inl (Error ''no such file or directory'')"
    by (simp add: example_newEnforcer_def)
  have found: "example_newEnforcer ''authz_model.conf'' ''authz_policy.csv'' =
      Inr example_enforcer"
    by (simp add: example_newEnforcer_def)
  from from_files_error_or_authorizer
    [of example_newEnforcer "''missing.conf''" "''authz_policy.csv''"] missing
  have 1: "NewAuthorizerFromFiles example_newEnforcer ''missing.conf'' ''authz_policy.csv'' opts =
      (None, Some (Error ''no such file or directory''))" for opts :: "bool Option list"
    by blast
  from from_files_error_or_authorizer
    [of example_newEnforcer "''authz_model.conf''" "''authz_policy.csv''"] found
  have 2: "NewAuthorizerFromFiles example_newEnforcer ''authz_model.conf'' ''authz_policy.csv'' opts
      = (Some (NewAuthorizer example_enforcer opts), None)" for opts :: "bool Option list"
    by blast
  from 1 2 show ?thesis
    by (intro conjI)
qed

section \<open>Options\<close>

lemma WithSubjectGetter_slots:
  "enforcer (WithSubjectGetter g a) = enforcer a"
  "getSubject (WithSubjectGetter g a) = g"
  "getObject (WithSubjectGetter g a) = getObject a"
  "getAction (WithSubjectGetter g a) = getAction a"
  "forbiddenHandler (WithSubjectGetter g a) = forbiddenHandler a"
  by (simp_all add: WithSubjectGetter_def)

lemma WithObjectGetter_slots:
  "enforcer (WithObjectGetter g a) = enforcer a"
  "getSubject (WithObjectGetter g a) = getSubject a"
  "getObject (WithObjectGetter g a) = g"
  "getAction (WithObjectGetter g a) = getAction a"
  "forbiddenHandler (WithObjectGetter g a) = forbiddenHandler a"
  by (simp_all add: WithObjectGetter_def)

lemma WithActionGetter_slots:
  "enforcer (WithActionGetter g a) = enforcer a"
  "getSubject (WithActionGetter g a) = getSubject a"
  "getObject (WithActionGetter g a) = getObject a"
  "getAction (WithActionGetter g a) = g"
  "forbiddenHandler (WithActionGetter g a) = forbiddenHandler a"
  by (simp_all add: WithActionGetter_def)

lemma WithForbiddenHandler_slots:
  "enforcer (WithForbiddenHandler h a) = enforcer a"
  "getSubject (WithForbiddenHandler h a) = getSubject a"
  "getObject (WithForbiddenHandler h a) = getObject a"
  "getAction (WithForbiddenHandler h a) = getAction a"
  "forbiddenHandler (WithForbiddenHandler h a) = h"
  by (simp_all add: WithForbiddenHandler_def)

lemma NewAuthorizer_snoc:
  "NewAuthorizer e (opts @ [opt]) = opt (NewAuthorizer e opts)"
  by (simp add: NewAuthorizer_def)

lemma NewAuthorizer_single:
  "NewAuthorizer e [opt] = opt (NewAuthorizer e [])"
  by (simp add: NewAuthorizer_def)

lemma NewAuthorizer_append:
  "NewAuthorizer e (xs @ ys) = foldl (\<lambda>a opt. opt a) (NewAuthorizer e xs) ys"
  by (simp add: NewAuthorizer_def)

lemma foldl_options_preserve:
  "\<forall>opt \<in> set ys. \<forall>b. slot (opt b) = slot b \<Longrightarrow>
   slot (foldl (\<lambda>a opt. opt a) a ys) = slot a"
  by (induction ys arbitrary: a) simp_all

text \<open>
  Claim C9. Each of the four options sets its own slot and leaves the enforcer and the
  other three slots of any authorizer as they were. Given alone to NewAuthorizer, an
  option therefore yields the authorizer of defaults with that one slot replaced: the
  other three slots still hold the default getters and the default forbidden handler.
\<close>

theorem option_overrides_only_its_slot:
  "NewAuthorizer e [WithSubjectGetter gs] = (NewAuthorizer e [])\<lparr>getSubject := gs\<rparr>
   \<and> NewAuthorizer e [WithObjectGetter go] = (NewAuthorizer e [])\<lparr>getObject := go\<rparr>
   \<and> NewAuthorizer e [WithActionGetter ga] = (NewAuthorizer e [])\<lparr>getAction := ga\<rparr>
   \<and> NewAuthorizer e [WithForbiddenHandler h] = (NewAuthorizer e [])\<lparr>forbiddenHandler := h\<rparr>
   \<and> getSubject (NewAuthorizer e [WithSubjectGetter gs]) = gs
   \<and> getObject (NewAuthorizer e [WithSubjectGetter gs]) = defaultGetObject
   \<and> getAction (NewAuthorizer e [WithSubjectGetter gs]) = defaultGetAction
   \<and> forbiddenHandler (NewAuthorizer e [WithSubjectGetter gs]) = defaultForbiddenHandler
   \<and> getSubject (NewAuthorizer e [WithObjectGetter go]) = defaultGetSubject
   \<and> getObject (NewAuthorizer e [WithObjectGetter go]) = go
   \<and> getAction (NewAuthorizer e [WithObjectGetter go]) = defaultGetAction
   \<and> forbiddenHandler (NewAuthorizer e [WithObjectGetter go]) = defaultForbiddenHandler
   \<and> getSubject (NewAuthorizer e [WithActionGetter ga]) = defaultGetSubject
   \<and> getObject (NewAuthorizer e [WithActionGetter ga]) = defaultGetObject
   \<and> getAction (NewAuthorizer e [WithActionGetter ga]) = ga
   \<and> forbiddenHandler (NewAuthorizer e [WithActionGetter ga]) = defaultForbiddenHandler
   \<and> getSubject (NewAuthorizer e [WithForbiddenHandler h]) = defaultGetSubject
   \<and> getObject (NewAuthorizer e [WithForbiddenHandler h]) = defaultGetObject
   \<and> getAction (NewAuthorizer e [WithForbiddenHandler h]) = defaultGetAction
   \<and> forbiddenHandler (NewAuthorizer e [WithForbiddenHandler h]) = h
   \<and> (getObject (WithSubjectGetter gs a), getAction (WithSubjectGetter gs a),
        forbiddenHandler (WithSubjectGetter gs a)) =
       (getObject a, getAction a, forbiddenHandler a)
   \<and> (getSubject (WithObjectGetter go a), getAction (WithObjectGetter go a),
        forbiddenHandler (WithObjectGetter go a)) =
       (getSubject a, getAction a, forbiddenHandler a)
   \<and> (getSubject (WithActionGetter ga a), getObject (WithActionGetter ga a),
        forbiddenHandler (WithActionGetter ga a)) =
       (getSubject a, getObject a, forbiddenHandler a)
   \<and> (getSubject (WithForbiddenHandler h a), getObject (WithForbiddenHandler h a),
        getAction (WithForbiddenHandler h a)) =
       (getSubject a, getObject a, getAction a)"
  unfolding NewAuthorizer_single
  by (simp add: WithSubjectGetter_def WithObjectGetter_def WithActionGetter_def
      WithForbiddenHandler_def)

lemma last_subject_getter:
  "\<forall>p \<in> set ys. \<forall>b. getSubject (p b) = getSubject b \<Longrightarrow>
   getSubject (NewAuthorizer e (xs @ WithSubjectGetter g # ys)) = g"
  by (simp add: NewAuthorizer_append foldl_options_preserve [where slot = getSubject]
      WithSubjectGetter_slots)

lemma last_object_getter:
  "\<forall>p \<in> set ys. \<forall>b. getObject (p b) = getObject b \<Longrightarrow>
   getObject (NewAuthorizer e (xs @ WithObjectGetter g # ys)) = g"
  by (simp add: NewAuthorizer_append foldl_options_preserve [where slot = getObject]
      WithObjectGetter_slots)

lemma last_action_getter:
  "\<forall>p \<in> set ys. \<forall>b. getAction (p b) = getAction b \<Longrightarrow>
   getAction (NewAuthorizer e (xs @ WithActionGetter g # ys)) = g"
  by (simp add: NewAuthorizer_append foldl_options_preserve [where slot = getAction]
      WithActionGetter_slots)

lemma last_forbidden_handler:
  "\<forall>p \<in> set ys. \<forall>b. forbiddenHandler (p b) = forbiddenHandler b \<Longrightarrow>
   forbiddenHandler (NewAuthorizer e (xs @ WithForbiddenHandler h # ys)) = h"
  by (simp add: NewAuthorizer_append foldl_options_preserve [where slot = forbiddenHandler]
      WithForbiddenHandler_slots)

text \<open>
  Claim C10. NewAuthorizer applies its options from left to right: an option appended
  to the list is applied to the authorizer built from the options before it. Hence an
  option for a slot decides that slot whenever no later option changes the slot again,
  whatever options came earlier; two options for one slot in a row build the same
  authorizer as the second alone; and the handler that a denied request reaches, on
  every later request, is the one of the last forbidden-handler option.
\<close>

theorem last_option_wins:
  "NewAuthorizer e (opts @ [opt]) = opt (NewAuthorizer e opts)
   \<and> ((\<forall>p \<in> set ys. \<forall>b. getSubject (p b) = getSubject b) \<longrightarrow>
        getSubject (NewAuthorizer e (xs @ WithSubjectGetter gs # ys)) = gs)
   \<and> ((\<forall>p \<in> set ys. \<forall>b. getObject (p b) = getObject b) \<longrightarrow>
        getObject (NewAuthorizer e (xs @ WithObjectGetter go # ys)) = go)
   \<and> ((\<forall>p \<in> set ys. \<forall>b. getAction (p b) = getAction b) \<longrightarrow>
        getAction (NewAuthorizer e (xs @ WithActionGetter ga # ys)) = ga)
   \<and> ((\<forall>p \<in> set ys. \<forall>b. forbiddenHandler (p b) = forbiddenHandler b) \<longrightarrow>
        forbiddenHandler (NewAuthorizer e (xs @ WithForbiddenHandler h # ys)) = h)
   \<and> NewAuthorizer e (xs @ [WithSubjectGetter gs', WithSubjectGetter gs]) =
        NewAuthorizer e (xs @ [WithSubjectGetter gs])
   \<and> NewAuthorizer e (xs @ [WithObjectGetter go', WithObjectGetter go]) =
        NewAuthorizer e (xs @ [WithObjectGetter go])
   \<and> NewAuthorizer e (xs @ [WithActionGetter ga', WithActionGetter ga]) =
        NewAuthorizer e (xs @ [WithActionGetter ga])
   \<and> NewAuthorizer e (xs @ [WithForbiddenHandler h', WithForbiddenHandler h]) =
        NewAuthorizer e (xs @ [WithForbiddenHandler h])
   \<and> ((\<forall>p \<in> set ys. \<forall>b. forbiddenHandler (p b) = forbiddenHandler b)
        \<and> Enforce (enforcer (NewAuthorizer e (xs @ WithForbiddenHandler h # ys)))
            (getSubject (NewAuthorizer e (xs @ WithForbiddenHandler h # ys)) ctx)
            (getObject (NewAuthorizer e (xs @ WithForbiddenHandler h # ys)) ctx)
            (getAction (NewAuthorizer e (xs @ WithForbiddenHandler h # ys)) ctx) = (False, None)
        \<longrightarrow> Middleware (NewAuthorizer e (xs @ WithForbiddenHandler h # ys)) next (ctx, w) =
              h (ctx, w))"
proof -
  have twice:
    "NewAuthorizer e (xs @ [WithSubjectGetter gs', WithSubjectGetter gs]) =
       NewAuthorizer e (xs @ [WithSubjectGetter gs])"
    "NewAuthorizer e (xs @ [WithObjectGetter go', WithObjectGetter go]) =
       NewAuthorizer e (xs @ [WithObjectGetter go])"
    "NewAuthorizer e (xs @ [WithActionGetter ga', WithActionGetter ga]) =
       NewAuthorizer e (xs @ [WithActionGetter ga])"
    "NewAuthorizer e (xs @ [WithForbiddenHandler h', WithForbiddenHandler h]) =
       NewAuthorizer e (xs @ [WithForbiddenHandler h])"
    by (simp_all add: NewAuthorizer_def WithSubjectGetter_def WithObjectGetter_def
        WithActionGetter_def WithForbiddenHandler_def)
  have served: "Middleware (NewAuthorizer e (xs @ WithForbiddenHandler h # ys)) next (ctx, w) =
      h (ctx, w)"
    if keep: "\<forall>p \<in> set ys. \<forall>b. forbiddenHandler (p b) = forbiddenHandler b"
      and deny: "Enforce (enforcer (NewAuthorizer e (xs @ WithForbiddenHandler h # ys)))
            (getSubject (NewAuthorizer e (xs @ WithForbiddenHandler h # ys)) ctx)
            (getObject (NewAuthorizer e (xs @ WithForbiddenHandler h # ys)) ctx)
            (getAction (NewAuthorizer e (xs @ WithForbiddenHandler h # ys)) ctx) = (False, None)"
    using Middleware_run_deny [OF deny] last_forbidden_handler [OF keep]
    by (simp add: Middleware_def)
  show ?thesis
    using twice served
    by (simp add: NewAuthorizer_snoc last_subject_getter last_object_getter
        last_action_getter last_forbidden_handler)
qed

theorem last_option_wins_witness:
  "forbiddenHandler
     (NewAuthorizer example_enforcer
        [WithForbiddenHandler defaultForbiddenHandler, WithForbiddenHandler teapotHandler,
         WithObjectGetter defaultGetObject] :: bool Authorizer) = teapotHandler
   \<and> runOnce
     (NewAuthorizer example_enforcer
        [WithForbiddenHandler defaultForbiddenHandler, WithForbiddenHandler teapotHandler,
         WithObjectGetter defaultGetObject]) ''bob'' ''/'' ''GET'' = (False, 418, ''nope'')"
proof -
  let ?xs = "[WithForbiddenHandler defaultForbiddenHandler] :: bool Option list"
  let ?ys = "[WithObjectGetter defaultGetObject] :: bool Option list"
  let ?a = "NewAuthorizer example_enforcer
      [WithForbiddenHandler defaultForbiddenHandler, WithForbiddenHandler teapotHandler,
       WithObjectGetter defaultGetObject] :: bool Authorizer"
  let ?ctx = "newRequestCtx ''bob'' ''/'' ''GET''"
  have list: "?xs @ WithForbiddenHandler teapotHandler # ?ys =
      [WithForbiddenHandler defaultForbiddenHandler, WithForbiddenHandler teapotHandler,
       WithObjectGetter defaultGetObject]"
    by simp
  have keep: "\<forall>p \<in> set ?ys. \<forall>b. forbiddenHandler (p b) = forbiddenHandler b"
    by (simp add: WithObjectGetter_slots)
  have slots: "enforcer ?a = example_enforcer" "getSubject ?a = defaultGetSubject"
    "getObject ?a = defaultGetObject" "getAction ?a = defaultGetAction"
    by (simp_all add: NewAuthorizer_def WithForbiddenHandler_def WithObjectGetter_def)
  have deny: "Enforce (enforcer ?a) (getSubject ?a ?ctx) (getObject ?a ?ctx) (getAction ?a ?ctx)
      = (False, None)"
    by (simp add: slots default_triple example_enforcer_bob)
  note lw = last_option_wins [where e = example_enforcer and xs = ?xs and ys = ?ys
      and h = teapotHandler and ctx = ?ctx and w = False, unfolded list]
  from lw keep have handler: "forbiddenHandler ?a = teapotHandler"
    by blast
  from lw keep deny
  have served: "Middleware ?a markAllowed (?ctx, False) = teapotHandler (?ctx, False)"
    by blast
  have fresh: "respBody (response ?ctx) = []"
    by (simp add: newRequestCtx_def)
  have "runOnce ?a ''bob'' ''/'' ''GET'' = (False, 418, ''nope'')"
    unfolding runOnce_def Let_def served
    by (simp add: teapotHandler_def Let_def written_response StatusCode_def Body_def fresh)
  with handler show ?thesis
    by simp
qed

section \<open>The repository's tests, run on the model\<close>

text \<open>
  The tests of the repository and the permission table of example/main.go, evaluated
  with the README's policy. They pass on the model as they do on the code.
\<close>

lemma runOnce_default:
  "runOnce (NewAuthorizer example_enforcer []) user path method =
     (if ((if user = [] then ''anonymous'' else user), path, method) \<in> set authz_policy
      then (True, 200, [])
      else (False, 403, ''Forbidden''))"
proof -
  let ?a = "NewAuthorizer example_enforcer [] :: bool Authorizer"
  let ?ctx = "newRequestCtx user path method"
  let ?sub = "if user = [] then ''anonymous'' else user"
  have fresh: "response ?ctx = \<lparr>statusCode = 0, contentType = [], respBody = []\<rparr>"
    by (simp add: newRequestCtx_def)
  show ?thesis
  proof (cases "(?sub, path, method) \<in> set authz_policy")
    case True
    then have "Enforce (enforcer ?a) (getSubject ?a ?ctx) (getObject ?a ?ctx) (getAction ?a ?ctx)
        = (True, None)"
      by (simp add: default_triple example_enforcer_def)
    then have "Middleware ?a markAllowed (?ctx, False) = (?ctx, True)"
      by (simp add: Middleware_def Middleware_run_allow markAllowed_def)
    with True show ?thesis
      by (simp add: runOnce_def Let_def fresh StatusCode_def StatusOK_def Body_def)
  next
    case False
    then have "Enforce (enforcer ?a) (getSubject ?a ?ctx) (getObject ?a ?ctx) (getAction ?a ?ctx)
        = (False, None)"
      by (simp add: default_triple example_enforcer_def)
    then have "Middleware ?a markAllowed (?ctx, False) = defaultForbiddenHandler (?ctx, False)"
      by (simp add: Middleware_def Middleware_run_deny)
    with False show ?thesis
      by (simp add: runOnce_def Let_def defaultForbiddenHandler_def written_response fresh
          StatusCode_def StatusForbidden_def Body_def)
  qed
qed

lemma TestMiddleware_Allow:
  "runOnce (NewAuthorizer example_enforcer []) ''alice'' ''/'' ''GET'' = (True, 200, [])"
  by (simp add: runOnce_default authz_policy_def)

lemma TestMiddleware_Deny:
  "runOnce (NewAuthorizer example_enforcer []) ''bob'' ''/'' ''GET'' = (False, 403, ''Forbidden'')"
  by (simp add: runOnce_default authz_policy_def)

lemma TestMiddleware_AnonymousDenied:
  "runOnce (NewAuthorizer example_enforcer []) [] ''/'' ''GET'' = (False, 403, ''Forbidden'')"
  by (simp add: runOnce_default authz_policy_def)

lemma TestAuthorizerMiddleware_Helper:
  "snd (AuthorizerMiddleware example_enforcer [] markAllowed
     (newRequestCtx ''alice'' ''/'' ''GET'', False)) = True"
  by (simp add: AuthorizerMiddleware_def Middleware_def Middleware_run_allow default_triple
      example_enforcer_alice markAllowed_def)

lemma runPermissionTests:
  "map (\<lambda>(user, path, method). fst (runOnce (NewAuthorizer example_enforcer []) user path method))
     [(''alice'', ''/'', ''GET''), (''alice'', ''/data1'', ''GET''),
      (''alice'', ''/data2'', ''GET''), (''alice'', ''/'', ''POST''),
      (''bob'', ''/'', ''GET''), (''bob'', ''/data1'', ''GET''),
      (''bob'', ''/data2'', ''POST''), (''bob'', ''/data2'', ''GET''),
      ([], ''/'', ''GET''), (''anonymous'', ''/'', ''GET''),
      (''alice'', ''/nonexistent'', ''GET''), (''bob'', ''/api/users'', ''GET'')]
   = [True, True, False, False, False, False, True, False, False, False, False, False]"
  by (simp add: runOnce_default authz_policy_def)

end
